theory Spec2Isabelle
  imports Main "HOL-Library.Sublist"
begin

section \<open>JavaScript values\<close>

text \<open>
  The scripts of \<^verbatim>\<open>static/script.js\<close> and the script with the dedicated error element
  are submit handlers of a browser page. They are embedded as functions on an explicit
  page state; the values they handle are JavaScript values, modelled first.

  A Number is \<open>NaN\<close>, an infinity, or a finite value given by its sign and the decimal
  \<open>s * 10 ^ e\<close> that \<^verbatim>\<open>Number::toString\<close> prints for it (the shortest decimal that
  reads back as the same double). Both zeros are \<open>Finite _ 0 _\<close>. The binary rounding
  of a decimal literal is not computed here: \<open>parseFloat\<close> below takes it as a parameter.
\<close>

datatype number = NaN | Infinity bool | Finite bool nat int

datatype json =
    JNull
  | JBool bool
  | JNum number
  | JStr string
  | JArr "json list"
  | JObj "(string \<times> json) list"

text \<open>A JavaScript value read from parsed JSON: \<open>None\<close> is \<^verbatim>\<open>undefined\<close>.\<close>

type_synonym jsval = "json option"

text \<open>An exception object: its \<^verbatim>\<open>name\<close> and its \<^verbatim>\<open>message\<close>.\<close>

datatype js_error = Thrown (error_name: string) (message: string)

definition new_Error :: "string \<Rightarrow> js_error" where
  "new_Error msg = Thrown ''Error'' msg"

text \<open>
  The two exceptions the engine itself raises in these handlers. The wording of the
  message is the engine's (here V8's); no theorem below depends on it.
\<close>

definition null_property_error :: "string \<Rightarrow> js_error" where
  "null_property_error key =
     Thrown ''TypeError''
       (''Cannot read properties of null (reading '' @ [CHR 0x27] @ key @ [CHR 0x27] @ '')'')"

definition not_primitive_error :: js_error where
  "not_primitive_error = Thrown ''TypeError'' ''Cannot convert object to primitive value''"

subsection \<open>Truthiness and strict equality\<close>

fun is_nan :: "number \<Rightarrow> bool" where
  "is_nan NaN = True"
| "is_nan _ = False"

fun is_zero :: "number \<Rightarrow> bool" where
  "is_zero (Finite _ s _) = (s = 0)"
| "is_zero _ = False"

fun is_finite :: "number \<Rightarrow> bool" where
  "is_finite (Finite _ _ _) = True"
| "is_finite _ = False"

definition pos_zero :: number where
  "pos_zero = Finite False 0 0"

text \<open>\<^verbatim>\<open>ToBoolean\<close> on a Number: \<open>NaN\<close>, \<open>+0\<close> and \<open>-0\<close> are falsy.\<close>

definition number_truthy :: "number \<Rightarrow> bool" where
  "number_truthy n = (\<not> is_nan n \<and> \<not> is_zero n)"

text \<open>\<^verbatim>\<open>ToBoolean\<close> on a value.\<close>

fun to_boolean :: "jsval \<Rightarrow> bool" where
  "to_boolean None = False"
| "to_boolean (Some JNull) = False"
| "to_boolean (Some (JBool b)) = b"
| "to_boolean (Some (JNum n)) = number_truthy n"
| "to_boolean (Some (JStr s)) = (s \<noteq> [])"
| "to_boolean (Some (JArr _)) = True"
| "to_boolean (Some (JObj _)) = True"

text \<open>
  \<^verbatim>\<open>x === y\<close> on Numbers: \<open>NaN\<close> equals nothing, the two zeros are equal, and two
  decimals are compared as written (the representation of a double is unique once
  trailing zeros of the digits are removed, which \<open>parseFloat\<close>'s rounding returns).
\<close>

definition number_strict_eq :: "number \<Rightarrow> number \<Rightarrow> bool" where
  "number_strict_eq x y =
     (\<not> is_nan x \<and> \<not> is_nan y \<and> ((is_zero x \<and> is_zero y) \<or> x = y))"

subsection \<open>Number to string\<close>

text \<open>The decimal digits of a natural number.\<close>

fun dec :: "nat \<Rightarrow> string" where
  "dec n = (if n < 10 then [''0123456789'' ! n]
            else dec (n div 10) @ [''0123456789'' ! (n mod 10)])"

declare dec.simps [simp del]

text \<open>
  \<^verbatim>\<open>Number::toString(x, 10)\<close> of ECMA-262: with \<open>k\<close> digits \<open>ds\<close> (no trailing zero)
  and \<open>n\<close> such that the value is \<open>0.ds * 10 ^ n\<close>, the digits are printed plainly for
  \<open>k \<le> n \<le> 21\<close>, with a decimal point for \<open>0 < n \<le> 21\<close>, behind \<open>0.00\<close> for
  \<open>-6 < n \<le> 0\<close>, and in exponent notation otherwise.
\<close>

definition format_digits :: "string \<Rightarrow> int \<Rightarrow> string" where
  "format_digits ds n =
     (let k = int (length ds) in
      if k \<le> n \<and> n \<le> 21 then ds @ replicate (nat (n - k)) CHR ''0''
      else if 0 < n \<and> n \<le> 21 then take (nat n) ds @ ''.'' @ drop (nat n) ds
      else if - 6 < n \<and> n \<le> 0 then ''0.'' @ replicate (nat (- n)) CHR ''0'' @ ds
      else (if k = 1 then ds else take 1 ds @ ''.'' @ drop 1 ds)
           @ ''e'' @ (if n - 1 < 0 then ''-'' else ''+'') @ dec (nat \<bar>n - 1\<bar>))"

fun number_to_string :: "number \<Rightarrow> string" where
  "number_to_string NaN = ''NaN''"
| "number_to_string (Infinity neg) = (if neg then ''-Infinity'' else ''Infinity'')"
| "number_to_string (Finite neg s e) =
     (if s = 0 then ''0''
      else let ds0 = dec s;
               z = length (takeWhile (\<lambda>c. c = CHR ''0'') (rev ds0));
               ds = take (length ds0 - z) ds0
           in (if neg then ''-'' else '''') @ format_digits ds (int (length ds0) + e))"

subsection \<open>Value to string, property access\<close>

text \<open>
  \<^verbatim>\<open>ToString\<close> on a value that came out of \<^verbatim>\<open>JSON.parse\<close>, as a template literal
  \<^verbatim>\<open>`${v}`\<close> applies it. An array is joined with commas, \<^verbatim>\<open>null\<close> elements printing
  as nothing. A plain object prints as \<^verbatim>\<open>[object Object]\<close> through the inherited
  \<^verbatim>\<open>toString\<close>; an own property \<^verbatim>\<open>toString\<close> (never callable in parsed JSON) shadows
  it, and the conversion throws a TypeError.
\<close>

fun to_string :: "json \<Rightarrow> js_error + string"
  and array_join :: "json list \<Rightarrow> js_error + string" where
  "to_string JNull = Inr ''null''"
| "to_string (JBool b) = Inr (if b then ''true'' else ''false'')"
| "to_string (JNum n) = Inr (number_to_string n)"
| "to_string (JStr s) = Inr s"
| "to_string (JArr xs) = array_join xs"
| "to_string (JObj kvs) =
     (if ''toString'' \<in> fst ` set kvs then Inl not_primitive_error
      else Inr ''[object Object]'')"
| "array_join [] = Inr []"
| "array_join (x # xs) =
     (case (case x of JNull \<Rightarrow> Inr [] | _ \<Rightarrow> to_string x) of
        Inl e \<Rightarrow> Inl e
      | Inr s \<Rightarrow>
          (if xs = [] then Inr s
           else (case array_join xs of Inl e \<Rightarrow> Inl e | Inr r \<Rightarrow> Inr (s @ '','' @ r))))"

fun value_to_string :: "jsval \<Rightarrow> js_error + string" where
  "value_to_string None = Inr ''undefined''"
| "value_to_string (Some v) = to_string v"

text \<open>
  \<^verbatim>\<open>data.key\<close> for the keys the handlers read (\<^verbatim>\<open>prediction\<close>, \<^verbatim>\<open>error\<close>; neither is
  a property of a prototype): reading a property of \<^verbatim>\<open>null\<close> throws, an object gives
  its own property (the last of duplicate keys, as \<^verbatim>\<open>JSON.parse\<close> stores it), every
  other value gives \<^verbatim>\<open>undefined\<close>.
\<close>

fun get_property :: "json \<Rightarrow> string \<Rightarrow> js_error + jsval" where
  "get_property JNull key = Inl (null_property_error key)"
| "get_property (JObj kvs) key = Inr (map_of (rev kvs) key)"
| "get_property _ key = Inr None"

text \<open>\<^verbatim>\<open>a || b\<close> with a string literal on the right.\<close>

definition or_else :: "jsval \<Rightarrow> string \<Rightarrow> jsval" where
  "or_else a b = (if to_boolean a then a else Some (JStr b))"

section \<open>The JSON payload\<close>

subsection \<open>parseFloat\<close>

text \<open>
  The characters \<^verbatim>\<open>parseFloat\<close> skips at the start. A \<open>char\<close> is a code unit below
  256; of the white space and line terminators of ECMA-262 these are tab, line feed,
  vertical tab, form feed, carriage return, space and the no-break space U+00A0. The
  others (U+FEFF, U+2028, U+2029 and the space separators from U+1680 on) are not
  characters of a \<open>string\<close>.
\<close>

definition is_white :: "char \<Rightarrow> bool" where
  "is_white c =
     (c \<in> set [CHR 0x09, CHR 0x0A, CHR 0x0B, CHR 0x0C, CHR 0x0D, CHR '' '', CHR 0xA0])"

definition is_digit :: "char \<Rightarrow> bool" where
  "is_digit c = (c \<in> set ''0123456789'')"

definition digit_val :: "char \<Rightarrow> nat" where
  "digit_val c = of_char c - 48"

definition digits_val :: "string \<Rightarrow> nat" where
  "digits_val ds = foldl (\<lambda>a c. 10 * a + digit_val c) 0 ds"

text \<open>An optional sign: whether it is a minus, and the rest of the text.\<close>

fun take_sign :: "string \<Rightarrow> bool \<times> string" where
  "take_sign [] = (False, [])"
| "take_sign (c # cs) =
     (if c = CHR ''-'' then (True, cs)
      else if c = CHR ''+'' then (False, cs)
      else (False, c # cs))"

text \<open>
  The exponent part \<^verbatim>\<open>e\<close>, sign, digits at the head of a text; 0 when there is no
  complete exponent part (the longest prefix that is a literal then ends before the
  \<^verbatim>\<open>e\<close>).
\<close>

fun exponent_part :: "string \<Rightarrow> int" where
  "exponent_part [] = 0"
| "exponent_part (c # cs) =
     (if c = CHR ''e'' \<or> c = CHR ''E'' then
        (let (neg, r) = take_sign cs; ds = takeWhile is_digit r
         in if ds = [] then 0
            else if neg then - int (digits_val ds) else int (digits_val ds))
      else 0)"

fun negate :: "number \<Rightarrow> number" where
  "negate NaN = NaN"
| "negate (Infinity neg) = Infinity (\<not> neg)"
| "negate (Finite neg s e) = Finite (\<not> neg) s e"

text \<open>
  \<^verbatim>\<open>parseFloat(text)\<close>: leading white space is dropped, the longest prefix that is a
  \<^verbatim>\<open>StrDecimalLiteral\<close> is read (a sign, then \<^verbatim>\<open>Infinity\<close> or digits with an optional
  fraction and exponent), and \<open>NaN\<close> is returned when there is none. \<open>rnd\<close> is the
  rounding of the literal's decimal value \<open>s * 10 ^ e\<close> to a double.
\<close>

definition parseFloat :: "(number \<Rightarrow> number) \<Rightarrow> string \<Rightarrow> number" where
  "parseFloat rnd text =
     (let (neg, rest) = take_sign (dropWhile is_white text) in
      if prefix ''Infinity'' rest then Infinity neg
      else
        let ip = takeWhile is_digit rest;
            r1 = dropWhile is_digit rest;
            fp = (case r1 of [] \<Rightarrow> [] | c # r \<Rightarrow> if c = CHR ''.'' then takeWhile is_digit r else []);
            r2 = (case r1 of [] \<Rightarrow> [] | c # r \<Rightarrow> if c = CHR ''.'' then dropWhile is_digit r else r1)
        in if ip = [] \<and> fp = [] then NaN
           else
             let v = rnd (Finite False (digits_val (ip @ fp)) (exponent_part r2 - int (length fp)))
             in if neg then negate v else v)"

text \<open>
  The rounding on the decimals that a double holds to full precision (at most 15
  significant digits, within the normal range): there the literal reads back unchanged.
  It is the rounding of the concrete inputs evaluated below.
\<close>

definition exact :: "number \<Rightarrow> number" where
  "exact n = n"

subsection \<open>Form entries and the payload object\<close>

text \<open>A value of a \<^verbatim>\<open>FormData\<close> entry: the text of a field, or the file of a file input.\<close>

datatype entry_value = Text string | File string

type_synonym form_data = "(string \<times> entry_value) list"

fun entry_to_string :: "entry_value \<Rightarrow> string" where
  "entry_to_string (Text s) = s"
| "entry_to_string (File _) = ''[object File]''"

datatype payload_value = PEntry entry_value | PNum number

text \<open>\<^verbatim>\<open>parseFloat(value) || 0\<close>.\<close>

definition or_zero :: "number \<Rightarrow> number" where
  "or_zero n = (if number_truthy n then n else pos_zero)"

text \<open>\<^verbatim>\<open>key === 'name' ? value : parseFloat(value) || 0\<close>.\<close>

definition coerce :: "(number \<Rightarrow> number) \<Rightarrow> string \<Rightarrow> entry_value \<Rightarrow> payload_value" where
  "coerce rnd key v =
     (if key = ''name'' then PEntry v
      else PNum (or_zero (parseFloat rnd (entry_to_string v))))"

text \<open>
  \<^verbatim>\<open>jsonData[key] = v\<close> on the plain object \<^verbatim>\<open>{}\<close>: an own property is created or
  overwritten, except for the key \<^verbatim>\<open>__proto__\<close>, which is the accessor inherited from
  \<^verbatim>\<open>Object.prototype\<close>: its setter ignores a value that is not an object, and both a
  string and a number are not.
\<close>

definition set_property ::
  "(string \<rightharpoonup> payload_value) \<Rightarrow> string \<Rightarrow> payload_value \<Rightarrow> (string \<rightharpoonup> payload_value)" where
  "set_property obj key v = (if key = ''__proto__'' then obj else obj(key \<mapsto> v))"

text \<open>The \<^verbatim>\<open>formData.forEach\<close> loop that fills \<^verbatim>\<open>jsonData\<close>, entry after entry.\<close>

definition json_data :: "(number \<Rightarrow> number) \<Rightarrow> form_data \<Rightarrow> (string \<rightharpoonup> payload_value)" where
  "json_data rnd entries =
     foldl (\<lambda>obj (key, v). set_property obj key (coerce rnd key v)) Map.empty entries"

text \<open>
  \<^verbatim>\<open>JSON.stringify(jsonData)\<close>, given as the JSON document the text denotes: a finite
  number stays a number (\<open>-0\<close> prints as \<^verbatim>\<open>0\<close>), a number that is not finite becomes
  \<^verbatim>\<open>null\<close>, a string stays a string, a \<^verbatim>\<open>File\<close> has no own enumerable property and
  becomes \<^verbatim>\<open>{}\<close>.
\<close>

fun serialize :: "payload_value \<Rightarrow> json" where
  "serialize (PEntry (Text s)) = JStr s"
| "serialize (PEntry (File _)) = JObj []"
| "serialize (PNum n) =
     (if is_finite n then JNum (if is_zero n then pos_zero else n) else JNull)"

definition json_stringify :: "(string \<rightharpoonup> payload_value) \<Rightarrow> (string \<rightharpoonup> json)" where
  "json_stringify obj = (\<lambda>key. map_option serialize (obj key))"

section \<open>The page, the network and the handler's effects\<close>

text \<open>
  The request handed to \<^verbatim>\<open>fetch\<close>. A multipart body carries the \<^verbatim>\<open>FormData\<close> entries
  as they are; a JSON body is given as the document its text denotes.
\<close>

datatype body = FormDataBody form_data | JsonBody "string \<rightharpoonup> json"

record request =
  url :: string
  http_method :: string
  headers :: "(string \<times> string) list"
  body :: body

text \<open>
  A \<^verbatim>\<open>Response\<close>: its status, and what the promises of \<^verbatim>\<open>response.text()\<close> and
  \<^verbatim>\<open>response.json()\<close> settle to (\<open>Inl\<close> is a rejection: the body could not be read, or
  is not JSON). A handler reads the body once, so the two are given independently.
\<close>

record response =
  status :: nat
  text_result :: "js_error + string"
  json_result :: "js_error + json"

text \<open>The remote end: what the promise of \<^verbatim>\<open>fetch\<close> settles to for a request.\<close>

type_synonym server = "request \<Rightarrow> js_error + response"

text \<open>\<^verbatim>\<open>response.ok\<close>: the status is in the range 200 to 299.\<close>

definition ok :: "response \<Rightarrow> bool" where
  "ok r = (200 \<le> status r \<and> status r \<le> 299)"

text \<open>\<^verbatim>\<open>${response.status}\<close>: the status is a Number.\<close>

definition status_text :: "response \<Rightarrow> string" where
  "status_text r = number_to_string (Finite False (status r) 0)"

datatype element = PredictionResult | ErrorResult

datatype log_arg = LogString string | LogError js_error

datatype event =
    PreventDefault
  | SetText element string
  | ClassAdd string
  | ClassRemove string
  | Fetch request
  | ConsoleError "log_arg list"

text \<open>
  The page: the text of the elements \<^verbatim>\<open>prediction-result\<close> and \<^verbatim>\<open>error-result\<close>, the
  class list of the element \<^verbatim>\<open>result\<close>, and the effects performed so far, in order.
\<close>

record page =
  prediction_result :: string
  error_result :: string
  result_classes :: "string list"
  trace :: "event list"

text \<open>
  A statement runs on the page and completes normally (\<open>Inr\<close>) or throws (\<open>Inl\<close>).
  An \<^verbatim>\<open>await\<close> of a promise that is settled by the environment is \<open>lift\<close> of its
  outcome. For the handler as a whole, \<open>Inl\<close> is a rejected promise: a failure that
  left the handler.
\<close>

type_synonym 'a io = "page \<Rightarrow> (js_error + 'a) \<times> page"

definition ret :: "'a \<Rightarrow> 'a io" where
  "ret x = (\<lambda>s. (Inr x, s))"

definition throw :: "js_error \<Rightarrow> 'a io" where
  "throw e = (\<lambda>s. (Inl e, s))"

definition lift :: "js_error + 'a \<Rightarrow> 'a io" where
  "lift r = (\<lambda>s. (r, s))"

definition io_bind :: "'a io \<Rightarrow> ('a \<Rightarrow> 'b io) \<Rightarrow> 'b io" where
  "io_bind m f = (\<lambda>s. case m s of (Inl e, s') \<Rightarrow> (Inl e, s') | (Inr x, s') \<Rightarrow> f x s')"

definition io_seq :: "'a io \<Rightarrow> 'b io \<Rightarrow> 'b io" where
  "io_seq m k = io_bind m (\<lambda>_. k)"

definition try_catch :: "'a io \<Rightarrow> (js_error \<Rightarrow> 'a io) \<Rightarrow> 'a io" where
  "try_catch blk handler =
     (\<lambda>s. case blk s of (Inl e, s') \<Rightarrow> handler e s' | (Inr x, s') \<Rightarrow> (Inr x, s'))"

text \<open>The \<^verbatim>\<open>finally\<close> block runs on every exit; when it throws, its exception wins.\<close>

definition try_catch_finally :: "'a io \<Rightarrow> (js_error \<Rightarrow> 'a io) \<Rightarrow> unit io \<Rightarrow> 'a io" where
  "try_catch_finally blk handler fin =
     (\<lambda>s. case try_catch blk handler s of
             (r, s') \<Rightarrow> (case fin s' of (Inl e, s'') \<Rightarrow> (Inl e, s'') | (Inr _, s'') \<Rightarrow> (r, s'')))"

definition emit :: "event \<Rightarrow> page \<Rightarrow> page" where
  "emit e s = s\<lparr>trace := trace s @ [e]\<rparr>"

definition prevent_default :: "unit io" where
  "prevent_default = (\<lambda>s. (Inr (), emit PreventDefault s))"

fun write_text :: "element \<Rightarrow> string \<Rightarrow> page \<Rightarrow> page" where
  "write_text PredictionResult t s = s\<lparr>prediction_result := t\<rparr>"
| "write_text ErrorResult t s = s\<lparr>error_result := t\<rparr>"

text \<open>\<^verbatim>\<open>element.textContent = t\<close>.\<close>

definition set_text :: "element \<Rightarrow> string \<Rightarrow> unit io" where
  "set_text el t = (\<lambda>s. (Inr (), emit (SetText el t) (write_text el t s)))"

text \<open>\<^verbatim>\<open>resultDiv.classList.add(c)\<close> and \<^verbatim>\<open>resultDiv.classList.remove(c)\<close>.\<close>

definition class_add :: "string \<Rightarrow> unit io" where
  "class_add c =
     (\<lambda>s. (Inr (), emit (ClassAdd c)
                     (s\<lparr>result_classes :=
                          (if c \<in> set (result_classes s) then result_classes s
                           else result_classes s @ [c])\<rparr>)))"

definition class_remove :: "string \<Rightarrow> unit io" where
  "class_remove c =
     (\<lambda>s. (Inr (), emit (ClassRemove c)
                     (s\<lparr>result_classes := filter (\<lambda>x. x \<noteq> c) (result_classes s)\<rparr>)))"

definition fetch :: "server \<Rightarrow> request \<Rightarrow> response io" where
  "fetch srv req = (\<lambda>s. (srv req, emit (Fetch req) s))"

definition console_error :: "log_arg list \<Rightarrow> unit io" where
  "console_error args = (\<lambda>s. (Inr (), emit (ConsoleError args) s))"

section \<open>The submit handlers\<close>

text \<open>
  Each handler is given the remote end and the entries \<^verbatim>\<open>new FormData(form)\<close> reads from
  the form at the submission; the expected page elements exist.
\<close>

text \<open>
  The two requests: \<^verbatim>\<open>fetch('/predict', {method: 'POST', body: formData})\<close>, and the
  same with the header \<^verbatim>\<open>Content-Type: application/json\<close> and the body
  \<^verbatim>\<open>JSON.stringify(jsonData)\<close>.
\<close>

definition multipart_request :: "form_data \<Rightarrow> request" where
  "multipart_request formData =
     \<lparr>url = ''/predict'', http_method = ''POST'', headers = [],
      body = FormDataBody formData\<rparr>"

definition json_request :: "(string \<rightharpoonup> payload_value) \<Rightarrow> request" where
  "json_request jsonData =
     \<lparr>url = ''/predict'', http_method = ''POST'',
      headers = [(''Content-Type'', ''application/json'')],
      body = JsonBody (json_stringify jsonData)\<rparr>"

subsection \<open>Multipart variants (first and third script of \<^verbatim>\<open>static/script.js\<close>)\<close>

text \<open>The \<^verbatim>\<open>try\<close>/\<^verbatim>\<open>catch\<close> statement, which the two scripts share word for word.\<close>

definition multipart_exchange :: "server \<Rightarrow> form_data \<Rightarrow> unit io" where
  "multipart_exchange srv formData =
     try_catch
       (io_bind (fetch srv (multipart_request formData)) (\<lambda>response.
        io_seq
          (if \<not> ok response then
             io_bind (lift (text_result response)) (\<lambda>errorText.
               throw (new_Error (''HTTP error! Status: '' @ status_text response
                                   @ '', Message: '' @ errorText)))
           else ret ())
          (io_bind (lift (json_result response)) (\<lambda>data.
           io_bind (lift (get_property data ''prediction'')) (\<lambda>prediction.
             if prediction \<noteq> None then
               io_bind (lift (get_property data ''prediction'')) (\<lambda>shown.
               io_bind (lift (value_to_string shown)) (\<lambda>t.
                 set_text PredictionResult (''Prediction: '' @ t)))
             else
               io_bind (lift (get_property data ''error'')) (\<lambda>err.
               io_bind (lift (value_to_string (or_else err ''No prediction available''))) (\<lambda>t.
                 set_text PredictionResult (''Error: '' @ t))))))))
       (\<lambda>error.
          io_seq (console_error [LogString ''Error:'', LogError error])
                 (set_text PredictionResult (''Error: '' @ message error)))"

text \<open>The first script: the result shows \<^verbatim>\<open>Processing...\<close> while the request runs.\<close>

definition submit_multipart :: "server \<Rightarrow> form_data \<Rightarrow> unit io" where
  "submit_multipart srv formData =
     io_seq prevent_default
    (io_seq (set_text PredictionResult ''Processing...'')
            (multipart_exchange srv formData))"

text \<open>The third script: the same without the \<^verbatim>\<open>Processing...\<close> text.\<close>

definition submit_multipart_plain :: "server \<Rightarrow> form_data \<Rightarrow> unit io" where
  "submit_multipart_plain srv formData =
     io_seq prevent_default (multipart_exchange srv formData)"

subsection \<open>JSON-payload variant (second script of \<^verbatim>\<open>static/script.js\<close>)\<close>

definition submit_json :: "(number \<Rightarrow> number) \<Rightarrow> server \<Rightarrow> form_data \<Rightarrow> unit io" where
  "submit_json rnd srv formData =
     io_seq prevent_default
    (io_seq (set_text PredictionResult ''Processing...'')
    (io_seq (class_add ''loading'')
    (io_bind (ret (json_data rnd formData)) (\<lambda>jsonData.
     try_catch_finally
       (io_bind (fetch srv (json_request jsonData)) (\<lambda>response.
        io_seq
          (if \<not> ok response then throw (new_Error (''HTTP Error: '' @ status_text response))
           else ret ())
          (io_bind (lift (json_result response)) (\<lambda>data.
           io_bind (lift (get_property data ''prediction'')) (\<lambda>prediction.
             if to_boolean prediction then
               io_bind (lift (get_property data ''prediction'')) (\<lambda>shown.
               io_bind (lift (value_to_string shown)) (\<lambda>t.
                 set_text PredictionResult (''Predicted Final Marks: '' @ t)))
             else
               io_bind (lift (get_property data ''error'')) (\<lambda>err.
               io_bind (lift (value_to_string (or_else err ''Unexpected error occurred''))) (\<lambda>t.
                 set_text PredictionResult (''Error: '' @ t))))))))
       (\<lambda>error.
          io_seq (console_error [LogString ''Error:'',
                    if message error \<noteq> [] then LogString (message error) else LogError error])
                 (set_text PredictionResult ''An error occurred while processing your request.''))
       (class_remove ''loading'')))))"

subsection \<open>Variant with a dedicated error element\<close>

text \<open>
  \<^verbatim>\<open>new Error(data.error || `HTTP error! status: ${response.status}`)\<close> converts its
  argument to a string, so the construction itself can throw.
\<close>

definition submit_error_element :: "server \<Rightarrow> form_data \<Rightarrow> unit io" where
  "submit_error_element srv formData =
     io_seq prevent_default
    (io_seq (set_text PredictionResult [])
    (io_seq (set_text ErrorResult [])
    (try_catch
       (io_bind (fetch srv (multipart_request formData)) (\<lambda>response.
        io_bind (lift (json_result response)) (\<lambda>data.
        io_seq
          (if \<not> ok response then
             io_bind (lift (get_property data ''error'')) (\<lambda>err.
             io_bind (lift (value_to_string
                        (or_else err (''HTTP error! status: '' @ status_text response)))) (\<lambda>msg.
               throw (new_Error msg)))
           else ret ())
          (io_bind (lift (get_property data ''prediction'')) (\<lambda>prediction.
             if prediction \<noteq> None then
               io_bind (lift (get_property data ''prediction'')) (\<lambda>shown.
               io_bind (lift (value_to_string shown)) (\<lambda>t.
                 set_text PredictionResult (''Prediction: '' @ t)))
             else
               io_bind (lift (get_property data ''error'')) (\<lambda>err.
               io_bind (lift (value_to_string (or_else err ''No prediction available''))) (\<lambda>t.
                 set_text ErrorResult (''Error: '' @ t))))))))
       (\<lambda>error.
          io_seq (console_error [LogString ''Error:'', LogError error])
                 (set_text ErrorResult (''Error: '' @ message error))))))"

section \<open>Concrete submissions\<close>

text \<open>
  The inputs the statements below are evaluated at: a remote end that answers every
  request with one response, a page before its first submission, the form of the
  specification's scenario, a remote end that is down, and seven responses.
\<close>

definition always :: "response \<Rightarrow> server" where
  "always r = (\<lambda>req. Inr r)"

definition blank_page :: page where
  "blank_page = \<lparr>prediction_result = [], error_result = [], result_classes = [], trace = []\<rparr>"

definition alice_form :: form_data where
  "alice_form = [(''name'', Text ''Alice'')]"

text \<open>Status 200 with the body \<^verbatim>\<open>{ "prediction": 87.5 }\<close>.\<close>

definition prediction_response :: response where
  "prediction_response =
     \<lparr>status = 200,
      text_result = Inr (''{ '' @ [CHR 0x22] @ ''prediction'' @ [CHR 0x22] @ '': 87.5 }''),
      json_result = Inr (JObj [(''prediction'', JNum (Finite False 875 (- 1)))])\<rparr>"

text \<open>Status 200 with the body \<^verbatim>\<open>{ "prediction": 0 }\<close>.\<close>

definition zero_prediction_response :: response where
  "zero_prediction_response =
     \<lparr>status = 200,
      text_result = Inr (''{ '' @ [CHR 0x22] @ ''prediction'' @ [CHR 0x22] @ '': 0 }''),
      json_result = Inr (JObj [(''prediction'', JNum (Finite False 0 0))])\<rparr>"

text \<open>Status 500 with the body \<^verbatim>\<open>{ "error": "model unavailable" }\<close>.\<close>

definition model_unavailable_text :: string where
  "model_unavailable_text =
     ''{ '' @ [CHR 0x22] @ ''error'' @ [CHR 0x22] @ '': '' @ [CHR 0x22]
       @ ''model unavailable'' @ [CHR 0x22] @ '' }''"

definition model_unavailable_response :: response where
  "model_unavailable_response =
     \<lparr>status = 500,
      text_result = Inr model_unavailable_text,
      json_result = Inr (JObj [(''error'', JStr ''model unavailable'')])\<rparr>"

text \<open>
  Status 500 with the body \<^verbatim>\<open>Internal Server Error\<close>, which is not JSON:
  \<^verbatim>\<open>response.json()\<close> rejects with the engine's SyntaxError.
\<close>

definition unparsable_response :: response where
  "unparsable_response =
     \<lparr>status = 500,
      text_result = Inr ''Internal Server Error'',
      json_result = Inl (Thrown ''SyntaxError'' ''Unexpected token I in JSON at position 0'')\<rparr>"

text \<open>Status 200 with the body \<^verbatim>\<open>OK\<close>, which is not JSON.\<close>

definition not_json_response :: response where
  "not_json_response =
     \<lparr>status = 200,
      text_result = Inr ''OK'',
      json_result = Inl (Thrown ''SyntaxError'' ''Unexpected token O in JSON at position 0'')\<rparr>"

text \<open>Status 200 with the body \<^verbatim>\<open>{}\<close>: neither a prediction nor an error.\<close>

definition empty_object_response :: response where
  "empty_object_response =
     \<lparr>status = 200, text_result = Inr ''{}'', json_result = Inr (JObj [])\<rparr>"

text \<open>Status 200 with the body \<^verbatim>\<open>null\<close>.\<close>

definition null_body_response :: response where
  "null_body_response =
     \<lparr>status = 200, text_result = Inr ''null'', json_result = Inr JNull\<rparr>"

text \<open>A remote end that cannot be reached: the promise of \<^verbatim>\<open>fetch\<close> is rejected.\<close>

definition network_down :: server where
  "network_down = (\<lambda>req. Inl (Thrown ''TypeError'' ''Failed to fetch''))"


section \<open>Properties of the handlers\<close>

lemmas io_defs = ret_def throw_def lift_def io_bind_def io_seq_def try_catch_def
  try_catch_finally_def emit_def prevent_default_def set_text_def class_add_def
  class_remove_def fetch_def console_error_def

lemmas handler_defs = submit_multipart_def submit_multipart_plain_def submit_json_def
  submit_error_element_def multipart_exchange_def

subsection \<open>The loading class\<close>

text \<open>
  Claim C5. In the JSON-payload variant the class \<^verbatim>\<open>loading\<close>, added at the start of a
  submission, is removed on every exit path: whatever the remote end answers (success,
  a status that is not OK, a body that is not JSON, a network failure), the class list
  of the result container does not hold \<^verbatim>\<open>loading\<close> when the handler has completed,
  and the removal is the handler's last effect.
\<close>

theorem loading_class_removed:
  "''loading'' \<notin> set (result_classes (snd (submit_json rnd srv formData s)))
   \<and> (\<exists>before. trace (snd (submit_json rnd srv formData s)) = before @ [ClassRemove ''loading''])
   \<and> (\<exists>rest. trace (snd (submit_json rnd srv formData s)) =
         trace s @ [PreventDefault, SetText PredictionResult ''Processing...'',
                    ClassAdd ''loading''] @ rest)"
  by (simp add: submit_json_def io_defs split: sum.splits)

subsection \<open>No failure leaves a handler\<close>

lemma submit_multipart_completes: "fst (submit_multipart srv formData s) = Inr ()"
  by (simp add: handler_defs io_defs split: sum.splits)

lemma submit_multipart_plain_completes: "fst (submit_multipart_plain srv formData s) = Inr ()"
  by (simp add: handler_defs io_defs split: sum.splits)

lemma submit_json_completes: "fst (submit_json rnd srv formData s) = Inr ()"
  by (simp add: handler_defs io_defs split: sum.splits)

lemma submit_error_element_completes: "fst (submit_error_element srv formData s) = Inr ()"
  by (simp add: handler_defs io_defs split: sum.splits)

text \<open>A handler's last write to the page is the text of a display element.\<close>

lemma submit_multipart_ends_with_text:
  "\<exists>before t. trace (snd (submit_multipart srv formData s)) = before @ [SetText PredictionResult t]"
  by (simp add: handler_defs io_defs split: sum.splits)

lemma submit_multipart_plain_ends_with_text:
  "\<exists>before t. trace (snd (submit_multipart_plain srv formData s)) = before @ [SetText PredictionResult t]"
  by (simp add: handler_defs io_defs split: sum.splits)

lemma submit_json_ends_with_text:
  "\<exists>before t. trace (snd (submit_json rnd srv formData s)) =
     before @ [SetText PredictionResult t, ClassRemove ''loading'']"
  by (simp add: handler_defs io_defs split: sum.splits)

lemma submit_error_element_ends_with_text:
  "\<exists>before el t. trace (snd (submit_error_element srv formData s)) = before @ [SetText el t]"
  by (simp add: handler_defs io_defs split: sum.splits)

text \<open>What each script shows for each kind of failure.\<close>

lemma multipart_network_failure:
  "srv (multipart_request formData) = Inl e \<longrightarrow>
     prediction_result (snd (submit_multipart srv formData s)) = ''Error: '' @ message e
   \<and> prediction_result (snd (submit_multipart_plain srv formData s)) = ''Error: '' @ message e
   \<and> error_result (snd (submit_error_element srv formData s)) = ''Error: '' @ message e"
  by (simp add: handler_defs io_defs)

lemma json_network_failure:
  "srv (json_request (json_data rnd formData)) = Inl e \<longrightarrow>
     prediction_result (snd (submit_json rnd srv formData s)) =
       ''An error occurred while processing your request.''"
  by (simp add: handler_defs io_defs)

lemma multipart_bad_status:
  "srv (multipart_request formData) = Inr r \<and> \<not> ok r \<longrightarrow>
     prediction_result (snd (submit_multipart srv formData s)) =
       ''Error: '' @ (case text_result r of
                        Inl e \<Rightarrow> message e
                      | Inr t \<Rightarrow> ''HTTP error! Status: '' @ status_text r @ '', Message: '' @ t)
   \<and> prediction_result (snd (submit_multipart_plain srv formData s)) =
       ''Error: '' @ (case text_result r of
                        Inl e \<Rightarrow> message e
                      | Inr t \<Rightarrow> ''HTTP error! Status: '' @ status_text r @ '', Message: '' @ t)
   \<and> error_result (snd (submit_error_element srv formData s)) =
       ''Error: '' @ (case json_result r of
                        Inl e \<Rightarrow> message e
                      | Inr data \<Rightarrow>
                          (case get_property data ''error'' of
                             Inl e \<Rightarrow> message e
                           | Inr err \<Rightarrow>
                               (case value_to_string
                                       (or_else err (''HTTP error! status: '' @ status_text r)) of
                                  Inl e \<Rightarrow> message e
                                | Inr m \<Rightarrow> m)))"
  by (simp add: handler_defs io_defs new_Error_def split: sum.splits)

lemma json_bad_status:
  "srv (json_request (json_data rnd formData)) = Inr r \<and> \<not> ok r \<longrightarrow>
     prediction_result (snd (submit_json rnd srv formData s)) =
       ''An error occurred while processing your request.''"
  by (simp add: handler_defs io_defs)

lemma multipart_malformed_json:
  "srv (multipart_request formData) = Inr r \<and> ok r \<and> json_result r = Inl e \<longrightarrow>
     prediction_result (snd (submit_multipart srv formData s)) = ''Error: '' @ message e
   \<and> prediction_result (snd (submit_multipart_plain srv formData s)) = ''Error: '' @ message e
   \<and> error_result (snd (submit_error_element srv formData s)) = ''Error: '' @ message e"
  by (simp add: handler_defs io_defs)

lemma json_malformed_json:
  "srv (json_request (json_data rnd formData)) = Inr r \<and> ok r \<and> json_result r = Inl e \<longrightarrow>
     prediction_result (snd (submit_json rnd srv formData s)) =
       ''An error occurred while processing your request.''"
  by (simp add: handler_defs io_defs)

lemma multipart_missing_fields:
  "srv (multipart_request formData) = Inr r \<and> ok r \<and> json_result r = Inr data
   \<and> get_property data ''prediction'' = Inr None \<and> get_property data ''error'' = Inr err \<longrightarrow>
     prediction_result (snd (submit_multipart srv formData s)) =
       ''Error: '' @ (case value_to_string (or_else err ''No prediction available'') of
                        Inl e \<Rightarrow> message e | Inr m \<Rightarrow> m)
   \<and> prediction_result (snd (submit_multipart_plain srv formData s)) =
       ''Error: '' @ (case value_to_string (or_else err ''No prediction available'') of
                        Inl e \<Rightarrow> message e | Inr m \<Rightarrow> m)
   \<and> error_result (snd (submit_error_element srv formData s)) =
       ''Error: '' @ (case value_to_string (or_else err ''No prediction available'') of
                        Inl e \<Rightarrow> message e | Inr m \<Rightarrow> m)"
  by (simp add: handler_defs io_defs split: sum.splits)

lemma json_missing_fields:
  "srv (json_request (json_data rnd formData)) = Inr r \<and> ok r \<and> json_result r = Inr data
   \<and> get_property data ''prediction'' = Inr None \<and> get_property data ''error'' = Inr err \<longrightarrow>
     prediction_result (snd (submit_json rnd srv formData s)) =
       (case value_to_string (or_else err ''Unexpected error occurred'') of
          Inl e \<Rightarrow> ''An error occurred while processing your request.''
        | Inr m \<Rightarrow> ''Error: '' @ m)"
  by (simp add: handler_defs io_defs split: sum.splits)

lemma multipart_no_object:
  "srv (multipart_request formData) = Inr r \<and> ok r \<and> json_result r = Inr data
   \<and> get_property data ''prediction'' = Inl e \<longrightarrow>
     prediction_result (snd (submit_multipart srv formData s)) = ''Error: '' @ message e
   \<and> prediction_result (snd (submit_multipart_plain srv formData s)) = ''Error: '' @ message e
   \<and> error_result (snd (submit_error_element srv formData s)) = ''Error: '' @ message e"
  by (simp add: handler_defs io_defs)

lemma json_no_object:
  "srv (json_request (json_data rnd formData)) = Inr r \<and> ok r \<and> json_result r = Inr data
   \<and> get_property data ''prediction'' = Inl e \<longrightarrow>
     prediction_result (snd (submit_json rnd srv formData s)) =
       ''An error occurred while processing your request.''"
  by (simp add: handler_defs io_defs)

text \<open>
  Claim C6. Whatever the remote end does, every variant's handler completes normally:
  no exception leaves it, and its last write to the page is the text of a display
  element (followed, in the JSON-payload variant, by the removal of the loading class).
  Each failure is turned into a text. When the request fails (network unreachable), the
  multipart scripts show \<^verbatim>\<open>Error: \<close> and the failure's message in the result element,
  the script with the error element shows the same in the error element, and the
  JSON-payload script shows \<^verbatim>\<open>An error occurred while processing your request.\<close>
  When the status is not OK, the multipart scripts show \<^verbatim>\<open>Error: HTTP error! Status: \<close>,
  the status and the text of the body (or the message of the failure to read it), the
  script with the error element shows \<^verbatim>\<open>Error: \<close> and the body's \<^verbatim>\<open>error\<close> or
  \<^verbatim>\<open>HTTP error! status: \<close> and the status (or the message of the failure to parse or
  print it), and the JSON-payload script shows its fixed text. When the body of an OK
  response is not JSON, or is \<^verbatim>\<open>null\<close>, the scripts show \<^verbatim>\<open>Error: \<close> and the message
  of that failure, the JSON-payload script its fixed text. When the parsed body has no
  \<^verbatim>\<open>prediction\<close>, the scripts show \<^verbatim>\<open>Error: \<close> and the body's \<^verbatim>\<open>error\<close> when it is
  truthy, and \<^verbatim>\<open>No prediction available\<close> (JSON-payload script:
  \<^verbatim>\<open>Unexpected error occurred\<close>) otherwise.
\<close>

theorem no_failure_leaves_handler:
  "fst (submit_multipart srv formData s) = Inr ()
   \<and> fst (submit_multipart_plain srv formData s) = Inr ()
   \<and> fst (submit_json rnd srv formData s) = Inr ()
   \<and> fst (submit_error_element srv formData s) = Inr ()
   \<and> (\<exists>before t. trace (snd (submit_multipart srv formData s)) =
         before @ [SetText PredictionResult t])
   \<and> (\<exists>before t. trace (snd (submit_multipart_plain srv formData s)) =
         before @ [SetText PredictionResult t])
   \<and> (\<exists>before t. trace (snd (submit_json rnd srv formData s)) =
         before @ [SetText PredictionResult t, ClassRemove ''loading''])
   \<and> (\<exists>before el t. trace (snd (submit_error_element srv formData s)) =
         before @ [SetText el t])
   \<and> (srv (multipart_request formData) = Inl e \<longrightarrow>
         prediction_result (snd (submit_multipart srv formData s)) = ''Error: '' @ message e
       \<and> prediction_result (snd (submit_multipart_plain srv formData s)) = ''Error: '' @ message e
       \<and> error_result (snd (submit_error_element srv formData s)) = ''Error: '' @ message e)
   \<and> (srv (json_request (json_data rnd formData)) = Inl e \<longrightarrow>
         prediction_result (snd (submit_json rnd srv formData s)) =
           ''An error occurred while processing your request.'')
   \<and> (srv (multipart_request formData) = Inr r \<and> \<not> ok r \<longrightarrow>
         prediction_result (snd (submit_multipart srv formData s)) =
           ''Error: '' @ (case text_result r of
                            Inl e \<Rightarrow> message e
                          | Inr t \<Rightarrow> ''HTTP error! Status: '' @ status_text r @ '', Message: '' @ t)
       \<and> prediction_result (snd (submit_multipart_plain srv formData s)) =
           ''Error: '' @ (case text_result r of
                            Inl e \<Rightarrow> message e
                          | Inr t \<Rightarrow> ''HTTP error! Status: '' @ status_text r @ '', Message: '' @ t)
       \<and> error_result (snd (submit_error_element srv formData s)) =
           ''Error: '' @ (case json_result r of
                            Inl e \<Rightarrow> message e
                          | Inr data \<Rightarrow>
                              (case get_property data ''error'' of
                                 Inl e \<Rightarrow> message e
                               | Inr err \<Rightarrow>
                                   (case value_to_string
                                           (or_else err (''HTTP error! status: '' @ status_text r)) of
                                      Inl e \<Rightarrow> message e
                                    | Inr m \<Rightarrow> m))))
   \<and> (srv (json_request (json_data rnd formData)) = Inr r \<and> \<not> ok r \<longrightarrow>
         prediction_result (snd (submit_json rnd srv formData s)) =
           ''An error occurred while processing your request.'')
   \<and> (srv (multipart_request formData) = Inr r \<and> ok r \<and> json_result r = Inl e \<longrightarrow>
         prediction_result (snd (submit_multipart srv formData s)) = ''Error: '' @ message e
       \<and> prediction_result (snd (submit_multipart_plain srv formData s)) = ''Error: '' @ message e
       \<and> error_result (snd (submit_error_element srv formData s)) = ''Error: '' @ message e)
   \<and> (srv (json_request (json_data rnd formData)) = Inr r \<and> ok r \<and> json_result r = Inl e \<longrightarrow>
         prediction_result (snd (submit_json rnd srv formData s)) =
           ''An error occurred while processing your request.'')
   \<and> (srv (multipart_request formData) = Inr r \<and> ok r \<and> json_result r = Inr data
       \<and> get_property data ''prediction'' = Inr None \<and> get_property data ''error'' = Inr err \<longrightarrow>
         prediction_result (snd (submit_multipart srv formData s)) =
           ''Error: '' @ (case value_to_string (or_else err ''No prediction available'') of
                            Inl e \<Rightarrow> message e | Inr m \<Rightarrow> m)
       \<and> prediction_result (snd (submit_multipart_plain srv formData s)) =
           ''Error: '' @ (case value_to_string (or_else err ''No prediction available'') of
                            Inl e \<Rightarrow> message e | Inr m \<Rightarrow> m)
       \<and> error_result (snd (submit_error_element srv formData s)) =
           ''Error: '' @ (case value_to_string (or_else err ''No prediction available'') of
                            Inl e \<Rightarrow> message e | Inr m \<Rightarrow> m))
   \<and> (srv (json_request (json_data rnd formData)) = Inr r \<and> ok r \<and> json_result r = Inr data
       \<and> get_property data ''prediction'' = Inr None \<and> get_property data ''error'' = Inr err \<longrightarrow>
         prediction_result (snd (submit_json rnd srv formData s)) =
           (case value_to_string (or_else err ''Unexpected error occurred'') of
              Inl e \<Rightarrow> ''An error occurred while processing your request.''
            | Inr m \<Rightarrow> ''Error: '' @ m))
   \<and> (srv (multipart_request formData) = Inr r \<and> ok r \<and> json_result r = Inr data
       \<and> get_property data ''prediction'' = Inl e \<longrightarrow>
         prediction_result (snd (submit_multipart srv formData s)) = ''Error: '' @ message e
       \<and> prediction_result (snd (submit_multipart_plain srv formData s)) = ''Error: '' @ message e
       \<and> error_result (snd (submit_error_element srv formData s)) = ''Error: '' @ message e)
   \<and> (srv (json_request (json_data rnd formData)) = Inr r \<and> ok r \<and> json_result r = Inr data
       \<and> get_property data ''prediction'' = Inl e \<longrightarrow>
         prediction_result (snd (submit_json rnd srv formData s)) =
           ''An error occurred while processing your request.'')"
  by (intro conjI submit_multipart_completes submit_multipart_plain_completes
      submit_json_completes submit_error_element_completes submit_multipart_ends_with_text
      submit_multipart_plain_ends_with_text submit_json_ends_with_text
      submit_error_element_ends_with_text multipart_network_failure json_network_failure
      multipart_bad_status json_bad_status multipart_malformed_json json_malformed_json
      multipart_missing_fields json_missing_fields multipart_no_object json_no_object)

text \<open>
  The statement at five remote ends: one that is down, and one for each of a status 500
  with a JSON error, an OK status with a body that is not JSON, an OK status with the
  body \<^verbatim>\<open>{}\<close>, and an OK status with the body \<^verbatim>\<open>null\<close>.
\<close>

theorem no_failure_leaves_handler_witness:
  "network_down (multipart_request alice_form) = Inl (Thrown ''TypeError'' ''Failed to fetch'')
   \<and> prediction_result (snd (submit_multipart network_down alice_form blank_page)) =
       ''Error: Failed to fetch''
   \<and> error_result (snd (submit_error_element network_down alice_form blank_page)) =
       ''Error: Failed to fetch''
   \<and> prediction_result (snd (submit_json exact network_down alice_form blank_page)) =
       ''An error occurred while processing your request.''
   \<and> \<not> ok model_unavailable_response
   \<and> prediction_result
       (snd (submit_multipart (always model_unavailable_response) alice_form blank_page)) =
       ''Error: HTTP error! Status: 500, Message: '' @ model_unavailable_text
   \<and> error_result
       (snd (submit_error_element (always model_unavailable_response) alice_form blank_page)) =
       ''Error: model unavailable''
   \<and> prediction_result
       (snd (submit_json exact (always model_unavailable_response) alice_form blank_page)) =
       ''An error occurred while processing your request.''
   \<and> ok not_json_response
   \<and> prediction_result (snd (submit_multipart (always not_json_response) alice_form blank_page)) =
       ''Error: Unexpected token O in JSON at position 0''
   \<and> error_result (snd (submit_error_element (always not_json_response) alice_form blank_page)) =
       ''Error: Unexpected token O in JSON at position 0''
   \<and> prediction_result (snd (submit_json exact (always not_json_response) alice_form blank_page)) =
       ''An error occurred while processing your request.''
   \<and> ok empty_object_response
   \<and> prediction_result
       (snd (submit_multipart (always empty_object_response) alice_form blank_page)) =
       ''Error: No prediction available''
   \<and> error_result
       (snd (submit_error_element (always empty_object_response) alice_form blank_page)) =
       ''Error: No prediction available''
   \<and> prediction_result
       (snd (submit_json exact (always empty_object_response) alice_form blank_page)) =
       ''Error: Unexpected error occurred''
   \<and> ok null_body_response
   \<and> prediction_result (snd (submit_multipart (always null_body_response) alice_form blank_page)) =
       ''Error: '' @ message (null_property_error ''prediction'')
   \<and> prediction_result (snd (submit_json exact (always null_body_response) alice_form blank_page)) =
       ''An error occurred while processing your request.''"
proof -
  have down: "network_down (multipart_request alice_form) = Inl (Thrown ''TypeError'' ''Failed to fetch'')"
    "network_down (json_request (json_data exact alice_form)) =
       Inl (Thrown ''TypeError'' ''Failed to fetch'')"
    by (simp_all add: network_down_def)
  have answers: "\<And>r. always r (multipart_request alice_form) = Inr r"
    "\<And>r. always r (json_request (json_data exact alice_form)) = Inr r"
    by (simp_all add: always_def)
  have st: "status_text model_unavailable_response = ''500''"
    by (simp add: status_text_def model_unavailable_response_def format_digits_def dec.simps
        numeral_2_eq_2)
  have bad: "\<not> ok model_unavailable_response"
    "text_result model_unavailable_response = Inr model_unavailable_text"
    "json_result model_unavailable_response = Inr (JObj [(''error'', JStr ''model unavailable'')])"
    by (simp_all add: ok_def model_unavailable_response_def)
  have malformed: "ok not_json_response"
    "json_result not_json_response =
       Inl (Thrown ''SyntaxError'' ''Unexpected token O in JSON at position 0'')"
    by (simp_all add: ok_def not_json_response_def)
  have missing: "ok empty_object_response" "json_result empty_object_response = Inr (JObj [])"
    "get_property (JObj []) ''prediction'' = Inr None" "get_property (JObj []) ''error'' = Inr None"
    by (simp_all add: ok_def empty_object_response_def)
  have null: "ok null_body_response" "json_result null_body_response = Inr JNull"
    "get_property JNull ''prediction'' = Inl (null_property_error ''prediction'')"
    by (simp_all add: ok_def null_body_response_def)
  note a = no_failure_leaves_handler [where srv = network_down and formData = alice_form
      and s = blank_page and rnd = exact and e = "Thrown ''TypeError'' ''Failed to fetch''"]
  note b = no_failure_leaves_handler [where srv = "always model_unavailable_response"
      and formData = alice_form and s = blank_page and rnd = exact
      and r = model_unavailable_response]
  note c = no_failure_leaves_handler [where srv = "always not_json_response"
      and formData = alice_form and s = blank_page and rnd = exact and r = not_json_response
      and e = "Thrown ''SyntaxError'' ''Unexpected token O in JSON at position 0''"]
  note d = no_failure_leaves_handler [where srv = "always empty_object_response"
      and formData = alice_form and s = blank_page and rnd = exact and r = empty_object_response
      and data = "JObj []" and err = None]
  note n = no_failure_leaves_handler [where srv = "always null_body_response"
      and formData = alice_form and s = blank_page and rnd = exact and r = null_body_response
      and data = JNull and e = "null_property_error ''prediction''"]
  have "prediction_result (snd (submit_multipart network_down alice_form blank_page)) =
          ''Error: Failed to fetch''
      \<and> error_result (snd (submit_error_element network_down alice_form blank_page)) =
          ''Error: Failed to fetch''
      \<and> prediction_result (snd (submit_json exact network_down alice_form blank_page)) =
          ''An error occurred while processing your request.''"
    using a down by simp
  moreover have "prediction_result
         (snd (submit_multipart (always model_unavailable_response) alice_form blank_page)) =
         ''Error: HTTP error! Status: 500, Message: '' @ model_unavailable_text
      \<and> error_result
         (snd (submit_error_element (always model_unavailable_response) alice_form blank_page)) =
         ''Error: model unavailable''
      \<and> prediction_result
         (snd (submit_json exact (always model_unavailable_response) alice_form blank_page)) =
         ''An error occurred while processing your request.''"
    using b answers bad by (simp add: st or_else_def)
  moreover have "prediction_result
         (snd (submit_multipart (always not_json_response) alice_form blank_page)) =
         ''Error: Unexpected token O in JSON at position 0''
      \<and> error_result (snd (submit_error_element (always not_json_response) alice_form blank_page)) =
         ''Error: Unexpected token O in JSON at position 0''
      \<and> prediction_result (snd (submit_json exact (always not_json_response) alice_form blank_page)) =
         ''An error occurred while processing your request.''"
    using c answers malformed by simp
  moreover have "prediction_result
         (snd (submit_multipart (always empty_object_response) alice_form blank_page)) =
         ''Error: No prediction available''
      \<and> error_result
         (snd (submit_error_element (always empty_object_response) alice_form blank_page)) =
         ''Error: No prediction available''
      \<and> prediction_result
         (snd (submit_json exact (always empty_object_response) alice_form blank_page)) =
         ''Error: Unexpected error occurred''"
    using d answers missing by (simp add: or_else_def)
  moreover have "prediction_result
         (snd (submit_multipart (always null_body_response) alice_form blank_page)) =
         ''Error: '' @ message (null_property_error ''prediction'')
      \<and> prediction_result (snd (submit_json exact (always null_body_response) alice_form blank_page)) =
         ''An error occurred while processing your request.''"
    using n answers null by simp
  ultimately show ?thesis
    using down(1) bad(1) malformed(1) missing(1) null(1) by simp
qed

subsection \<open>What the page shows when the request is issued\<close>

lemma submit_multipart_prefix:
  "\<exists>rest. trace (snd (submit_multipart srv formData s)) =
     trace s @ [PreventDefault, SetText PredictionResult ''Processing...'',
                Fetch (multipart_request formData)] @ rest"
  by (simp add: handler_defs io_defs split: sum.splits)

lemma submit_json_prefix:
  "\<exists>rest. trace (snd (submit_json rnd srv formData s)) =
     trace s @ [PreventDefault, SetText PredictionResult ''Processing...'', ClassAdd ''loading'',
                Fetch (json_request (json_data rnd formData))] @ rest"
  by (simp add: handler_defs io_defs split: sum.splits)

lemma submit_error_element_prefix:
  "\<exists>rest. trace (snd (submit_error_element srv formData s)) =
     trace s @ [PreventDefault, SetText PredictionResult [], SetText ErrorResult [],
                Fetch (multipart_request formData)] @ rest"
  by (simp add: handler_defs io_defs split: sum.splits)

lemma submit_multipart_plain_prefix:
  "\<exists>rest. trace (snd (submit_multipart_plain srv formData s)) =
     trace s @ [PreventDefault, Fetch (multipart_request formData)] @ rest"
  by (simp add: handler_defs io_defs split: sum.splits)

text \<open>
  Claim C7 as stated fails: the third script writes nothing before it issues the
  request. On the scenario's submission its effects are the prevented default, the
  request, and the result text, in this order.
\<close>

theorem plain_variant_no_processing_state:
  "trace (snd (submit_multipart_plain (always prediction_response) alice_form blank_page)) =
     [PreventDefault, Fetch (multipart_request alice_form),
      SetText PredictionResult ''Prediction: 87.5'']"
  by (simp add: handler_defs io_defs always_def prediction_response_def alice_form_def
      blank_page_def ok_def format_digits_def dec.simps)

text \<open>
  Claim C7, amended. The first multipart script and the JSON-payload script set the
  result text to \<^verbatim>\<open>Processing...\<close> before they issue the POST request to
  \<^verbatim>\<open>/predict\<close> (the JSON-payload script also adds the loading class before it); the
  script with the error element sets the result and the error text to the empty text
  before the request; the third script issues the request without writing to the page.
\<close>

theorem display_before_request:
  "(\<exists>rest. trace (snd (submit_multipart srv formData s)) =
      trace s @ [PreventDefault, SetText PredictionResult ''Processing...'',
                 Fetch (multipart_request formData)] @ rest)
   \<and> (\<exists>rest. trace (snd (submit_json rnd srv formData s)) =
      trace s @ [PreventDefault, SetText PredictionResult ''Processing...'', ClassAdd ''loading'',
                 Fetch (json_request (json_data rnd formData))] @ rest)
   \<and> (\<exists>rest. trace (snd (submit_error_element srv formData s)) =
      trace s @ [PreventDefault, SetText PredictionResult [], SetText ErrorResult [],
                 Fetch (multipart_request formData)] @ rest)
   \<and> (\<exists>rest. trace (snd (submit_multipart_plain srv formData s)) =
      trace s @ [PreventDefault, Fetch (multipart_request formData)] @ rest)"
  by (intro conjI submit_multipart_prefix submit_json_prefix submit_error_element_prefix
      submit_multipart_plain_prefix)

subsection \<open>The displayed text is a function of the form and the response\<close>

lemma submit_multipart_text_independent:
  "prediction_result (snd (submit_multipart srv formData s1)) =
   prediction_result (snd (submit_multipart srv formData s2))"
  by (simp add: handler_defs io_defs split: sum.splits)

lemma submit_multipart_plain_text_independent:
  "prediction_result (snd (submit_multipart_plain srv formData s1)) =
   prediction_result (snd (submit_multipart_plain srv formData s2))"
  by (simp add: handler_defs io_defs split: sum.splits)

lemma submit_json_text_independent:
  "prediction_result (snd (submit_json rnd srv formData s1)) =
   prediction_result (snd (submit_json rnd srv formData s2))"
  by (simp add: handler_defs io_defs split: sum.splits)

lemma submit_error_element_text_independent:
  "prediction_result (snd (submit_error_element srv formData s1)) =
   prediction_result (snd (submit_error_element srv formData s2))
   \<and> error_result (snd (submit_error_element srv formData s1)) =
     error_result (snd (submit_error_element srv formData s2))"
  by (simp add: handler_defs io_defs split: sum.splits)

text \<open>
  Claim C8. The displayed text is determined by the form's field values and the remote
  end's answers: two submissions of the same entries against the same remote end leave
  the same text in the result element (and in the error element of the variant that has
  one), whatever the page showed before either of them, so also when the second
  submission starts from the page the first one left.
\<close>

theorem submission_deterministic:
  "prediction_result (snd (submit_multipart srv formData s1)) =
     prediction_result (snd (submit_multipart srv formData s2))
   \<and> prediction_result (snd (submit_multipart_plain srv formData s1)) =
     prediction_result (snd (submit_multipart_plain srv formData s2))
   \<and> prediction_result (snd (submit_json rnd srv formData s1)) =
     prediction_result (snd (submit_json rnd srv formData s2))
   \<and> prediction_result (snd (submit_error_element srv formData s1)) =
     prediction_result (snd (submit_error_element srv formData s2))
   \<and> error_result (snd (submit_error_element srv formData s1)) =
     error_result (snd (submit_error_element srv formData s2))"
  using submit_multipart_text_independent [of srv formData s1 s2]
    submit_multipart_plain_text_independent [of srv formData s1 s2]
    submit_json_text_independent [of rnd srv formData s1 s2]
    submit_error_element_text_independent [of srv formData s1 s2]
  by simp

subsection \<open>A response with a prediction\<close>

text \<open>
  With an OK status and a body whose \<^verbatim>\<open>prediction\<close> is a value \<open>v\<close> that prints as
  \<open>t\<close>, the three scripts that test \<^verbatim>\<open>data.prediction !== undefined\<close> show the label
  followed by \<open>t\<close>.
\<close>

lemma prediction_shown:
  assumes "srv (multipart_request formData) = Inr r" and "ok r"
    and "json_result r = Inr data"
    and "get_property data ''prediction'' = Inr (Some v)" and "to_string v = Inr t"
  shows "prediction_result (snd (submit_multipart srv formData s)) = ''Prediction: '' @ t"
    and "prediction_result (snd (submit_multipart_plain srv formData s)) = ''Prediction: '' @ t"
    and "prediction_result (snd (submit_error_element srv formData s)) = ''Prediction: '' @ t"
  using assms by (simp_all add: handler_defs io_defs)

text \<open>
  The JSON-payload script tests \<^verbatim>\<open>data.prediction\<close> for truthiness instead: a falsy
  prediction takes the branch of the missing prediction.
\<close>

lemma prediction_shown_json:
  assumes "srv (json_request (json_data rnd formData)) = Inr r" and "ok r"
    and "json_result r = Inr data"
    and "get_property data ''prediction'' = Inr (Some v)" and "to_string v = Inr t"
  shows "prediction_result (snd (submit_json rnd srv formData s)) =
     (if to_boolean (Some v) then ''Predicted Final Marks: '' @ t
      else case get_property data ''error'' of
             Inl e \<Rightarrow> ''An error occurred while processing your request.''
           | Inr err \<Rightarrow>
               (case value_to_string (or_else err ''Unexpected error occurred'') of
                  Inl e \<Rightarrow> ''An error occurred while processing your request.''
                | Inr m \<Rightarrow> ''Error: '' @ m))"
  using assms by (simp add: handler_defs io_defs split: sum.splits)

text \<open>The scenario of the specification: the body \<^verbatim>\<open>{ "prediction": 87.5 }\<close>.\<close>

lemma scenario_prediction:
  "prediction_result (snd (submit_multipart (always prediction_response) alice_form blank_page))
     = ''Prediction: 87.5''"
  "prediction_result (snd (submit_multipart_plain (always prediction_response) alice_form blank_page))
     = ''Prediction: 87.5''"
  "prediction_result (snd (submit_error_element (always prediction_response) alice_form blank_page))
     = ''Prediction: 87.5''"
  "prediction_result (snd (submit_json exact (always prediction_response) alice_form blank_page))
     = ''Predicted Final Marks: 87.5''"
  by (simp_all add: handler_defs io_defs always_def prediction_response_def ok_def
      number_truthy_def format_digits_def dec.simps)

text \<open>
  Claim C1 says that every variant shows its label followed by the prediction, also for
  a falsy prediction such as 0. The JSON-payload script does not: for status 200 and the
  body \<^verbatim>\<open>{ "prediction": 0 }\<close> it shows \<^verbatim>\<open>Error: Unexpected error occurred\<close>, whatever
  the form and the page, where the claim has \<^verbatim>\<open>Predicted Final Marks: 0\<close>.
\<close>

theorem zero_prediction_shown_as_error:
  "prediction_result (snd (submit_json rnd (always zero_prediction_response) formData s)) =
     ''Error: Unexpected error occurred''"
  by (simp add: handler_defs io_defs always_def zero_prediction_response_def ok_def
      or_else_def number_truthy_def)

subsection \<open>A response whose status is not OK\<close>

lemma status_text_500: "status r = 500 \<Longrightarrow> status_text r = ''500''"
  by (simp add: status_text_def format_digits_def dec.simps numeral_2_eq_2)

lemma multipart_non_ok:
  assumes "srv (multipart_request formData) = Inr r" and "\<not> ok r"
    and "text_result r = Inr body_text"
  shows "prediction_result (snd (submit_multipart srv formData s)) =
           ''Error: HTTP error! Status: '' @ status_text r @ '', Message: '' @ body_text"
    and "prediction_result (snd (submit_multipart_plain srv formData s)) =
           ''Error: HTTP error! Status: '' @ status_text r @ '', Message: '' @ body_text"
  using assms by (simp_all add: handler_defs io_defs new_Error_def)

lemma json_non_ok:
  assumes "srv (json_request (json_data rnd formData)) = Inr r" and "\<not> ok r"
  shows "prediction_result (snd (submit_json rnd srv formData s)) =
           ''An error occurred while processing your request.''"
  using assms by (simp add: handler_defs io_defs)


text \<open>
  The script with the error element parses the body before it looks at the status: when
  the body is not JSON, it shows the parser's message, whatever the status.
\<close>

lemma error_element_unparsable:
  assumes "srv (multipart_request formData) = Inr r" and "json_result r = Inl parse_error"
  shows "error_result (snd (submit_error_element srv formData s)) =
           ''Error: '' @ message parse_error"
  using assms by (simp add: handler_defs io_defs)






text \<open>
  Claim C3 as stated fails in the JSON-payload script: for status 500 and a body that
  is not JSON the text it shows does not hold \<^verbatim>\<open>500\<close>.
\<close>

theorem json_variant_hides_status_code:
  "\<not> sublist ''500''
       (prediction_result
          (snd (submit_json exact (always unparsable_response) alice_form blank_page)))"
proof -
  have "prediction_result
          (snd (submit_json exact (always unparsable_response) alice_form blank_page))
          = ''An error occurred while processing your request.''"
    by (simp add: handler_defs io_defs always_def unparsable_response_def ok_def)
  then show ?thesis by (simp add: sublist_Cons_right)
qed

text \<open>
  Claim C3, amended. For a response with status 500 whose body is not JSON, the two
  multipart scripts show \<^verbatim>\<open>Error: HTTP error! Status: 500, Message: \<close> followed by the
  text of the body, and the JSON-payload script shows the fixed text
  \<^verbatim>\<open>An error occurred while processing your request.\<close>
\<close>

theorem status_500_unparsable_display:
  assumes "srv (multipart_request formData) = Inr r"
    and "srv (json_request (json_data rnd formData)) = Inr r"
    and "status r = 500"
    and "json_result r = Inl parse_error"
    and "text_result r = Inr body_text"
  shows "prediction_result (snd (submit_multipart srv formData s)) =
           ''Error: HTTP error! Status: 500, Message: '' @ body_text
       \<and> prediction_result (snd (submit_multipart_plain srv formData s)) =
           ''Error: HTTP error! Status: 500, Message: '' @ body_text
       \<and> prediction_result (snd (submit_json rnd srv formData s)) =
           ''An error occurred while processing your request.''"
proof -
  from assms(3) have n: "\<not> ok r" by (simp add: ok_def)
  show ?thesis
    using multipart_non_ok [of srv formData r body_text s, OF assms(1) n assms(5)]
      json_non_ok [of srv rnd formData r s, OF assms(2) n] status_text_500 [OF assms(3)]
    by simp
qed

theorem status_500_unparsable_display_witness:
  "status unparsable_response = 500
   \<and> json_result unparsable_response =
       Inl (Thrown ''SyntaxError'' ''Unexpected token I in JSON at position 0'')
   \<and> prediction_result (snd (submit_multipart (always unparsable_response) alice_form blank_page)) =
       ''Error: HTTP error! Status: 500, Message: Internal Server Error''
   \<and> prediction_result
       (snd (submit_multipart_plain (always unparsable_response) alice_form blank_page)) =
       ''Error: HTTP error! Status: 500, Message: Internal Server Error''
   \<and> prediction_result (snd (submit_json exact (always unparsable_response) alice_form blank_page)) =
       ''An error occurred while processing your request.''"
proof -
  have h1: "always unparsable_response (multipart_request alice_form) = Inr unparsable_response"
    and h2: "always unparsable_response (json_request (json_data exact alice_form)) =
              Inr unparsable_response"
    by (simp_all add: always_def)
  have h3: "status unparsable_response = 500"
    and h4: "json_result unparsable_response =
               Inl (Thrown ''SyntaxError'' ''Unexpected token I in JSON at position 0'')"
    and h5: "text_result unparsable_response = Inr ''Internal Server Error''"
    by (simp_all add: unparsable_response_def)
  show ?thesis
    using status_500_unparsable_display [of "always unparsable_response" alice_form
        unparsable_response exact
        "Thrown ''SyntaxError'' ''Unexpected token I in JSON at position 0''"
        "''Internal Server Error''" blank_page, OF h1 h2 h3 h4 h5] h3 h4
    by simp
qed

subsection \<open>The payload of the JSON-payload variant\<close>

lemma json_data_snoc:
  "json_data rnd (entries @ [(k, v)]) = set_property (json_data rnd entries) k (coerce rnd k v)"
  by (simp add: json_data_def)

text \<open>
  The payload holds, for a key other than \<^verbatim>\<open>__proto__\<close>, the coerced value of the last
  entry of that name, and nothing for a key without an entry.
\<close>

lemma json_data_lookup:
  "json_data rnd entries key =
     (if key = ''__proto__'' then None
      else map_option (coerce rnd key) (map_of (rev entries) key))"
proof (induction entries rule: rev_induct)
  case Nil
  show ?case by (simp add: json_data_def)
next
  case (snoc x xs)
  obtain k v where x: "x = (k, v)" by (cases x)
  show ?case
    unfolding x json_data_snoc using snoc.IH
    by (auto simp: set_property_def)
qed

lemma or_zero_not_nan: "\<not> is_nan (or_zero n)"
  by (simp add: or_zero_def number_truthy_def pos_zero_def)

lemma or_zero_of_nan: "is_nan n \<Longrightarrow> or_zero n = pos_zero"
  by (simp add: or_zero_def number_truthy_def)

lemma or_zero_strict_eq: "\<not> is_nan n \<Longrightarrow> number_strict_eq (or_zero n) n"
  by (simp add: or_zero_def number_truthy_def number_strict_eq_def pos_zero_def)

text \<open>
  For every field whose name is not \<^verbatim>\<open>__proto__\<close> the payload is as the specification
  describes it: the field \<^verbatim>\<open>name\<close> keeps its value, every other field holds 0 when
  \<open>parseFloat\<close> gives \<open>NaN\<close> and otherwise a number strictly equal to the parsed one.
\<close>

lemma payload_of_field:
  assumes "key \<noteq> ''__proto__''" and "map_of (rev entries) key = Some v"
  shows "key = ''name'' \<Longrightarrow> json_data rnd entries key = Some (PEntry v)"
    and "key \<noteq> ''name'' \<Longrightarrow> is_nan (parseFloat rnd (entry_to_string v)) \<Longrightarrow>
           json_data rnd entries key = Some (PNum pos_zero)"
    and "key \<noteq> ''name'' \<Longrightarrow> \<not> is_nan (parseFloat rnd (entry_to_string v)) \<Longrightarrow>
           \<exists>n. json_data rnd entries key = Some (PNum n)
               \<and> number_strict_eq n (parseFloat rnd (entry_to_string v))"
  using assms
  by (simp_all add: json_data_lookup coerce_def or_zero_of_nan or_zero_strict_eq)

lemma file_field_is_zero: "parseFloat rnd (entry_to_string (File f)) = NaN"
  by (simp add: parseFloat_def is_white_def is_digit_def)

text \<open>
  Claim C4 says that the payload maps every field other than \<^verbatim>\<open>name\<close> to the number
  parsed from its value. The assignment \<^verbatim>\<open>jsonData[key] = ...\<close> on a plain object
  misses the field name \<^verbatim>\<open>__proto__\<close>: for a form with the field \<^verbatim>\<open>__proto__\<close> of value
  \<^verbatim>\<open>5\<close> the payload, and the body sent, hold no such field.
\<close>

theorem proto_field_dropped:
  "json_data rnd [(''__proto__'', Text ''5'')] ''__proto__'' = None
   \<and> json_stringify (json_data rnd [(''__proto__'', Text ''5'')]) ''__proto__'' = None"
  by (simp add: json_stringify_def json_data_def set_property_def)

text \<open>
  Claim C9 as stated fails: a field whose text is \<^verbatim>\<open>Infinity\<close> parses to the number
  Infinity, which is truthy and stays in the payload, and \<^verbatim>\<open>JSON.stringify\<close> writes it
  as \<^verbatim>\<open>null\<close>.
\<close>

theorem infinity_serialized_as_null:
  "json_stringify (json_data exact [(''hours'', Text ''Infinity'')]) ''hours'' = Some JNull"
  by (simp add: json_stringify_def json_data_def set_property_def coerce_def or_zero_def
      number_truthy_def parseFloat_def is_white_def)

lemma serialize_or_zero:
  "serialize (PNum (or_zero n)) = (if is_finite (or_zero n) then JNum (or_zero n) else JNull)"
  by (simp add: or_zero_def number_truthy_def pos_zero_def)

text \<open>
  Claim C9, amended. In the JSON-payload variant every payload field other than
  \<^verbatim>\<open>name\<close> is a Number and is never \<open>NaN\<close>; in the serialized body it is that number
  when it is finite, and \<^verbatim>\<open>null\<close> when it is an infinity.
\<close>

theorem payload_number_never_nan:
  assumes "key \<noteq> ''name''" and "json_data rnd entries key = Some v"
  shows "\<exists>n. v = PNum n \<and> \<not> is_nan n
           \<and> json_stringify (json_data rnd entries) key =
               Some (if is_finite n then JNum n else JNull)"
proof -
  from assms(2) obtain e where v: "v = coerce rnd key e"
    by (auto simp: json_data_lookup split: if_splits)
  with assms(1) have "v = PNum (or_zero (parseFloat rnd (entry_to_string e)))"
    by (simp add: coerce_def)
  then show ?thesis
    using assms(2) or_zero_not_nan serialize_or_zero
    by (simp add: json_stringify_def)
qed

theorem payload_number_never_nan_witness:
  "''hours'' \<noteq> ''name''
   \<and> json_data exact [(''hours'', Text ''6.5'')] ''hours'' = Some (PNum (Finite False 65 (- 1)))
   \<and> json_stringify (json_data exact [(''hours'', Text ''6.5'')]) ''hours'' =
       Some (JNum (Finite False 65 (- 1)))"
proof -
  have h: "json_data exact [(''hours'', Text ''6.5'')] ''hours'' =
             Some (PNum (Finite False 65 (- 1)))"
    by (simp add: json_data_def set_property_def coerce_def or_zero_def number_truthy_def
        parseFloat_def is_white_def is_digit_def digits_val_def digit_val_def exact_def)
  have n: "''hours'' \<noteq> ''name''" by simp
  show ?thesis using payload_number_never_nan [OF n h] h by simp
qed

subsection \<open>The result and the error element\<close>












end
